theory Spec2Isabelle
  imports Complex_Main
begin

section \<open>The transaction engine (src/main.py, class ExpenseTracker)\<close>

text \<open>
  Amounts and balances are Python floats in the source; they are modelled as reals, so
  rounding of binary floating point is outside the model.  Dates written to the sheets are
  the strings produced by \<^verbatim>\<open>datetime.now().strftime('%d/%m/%Y')\<close>; the clock is an
  explicit argument \<open>now\<close> that already holds that string.  The two worksheets are lists
  of rows in stored order (the header row is not part of the list); a worksheet that was
  never connected is \<open>None\<close>, as the attribute is in the source.
\<close>

subsection \<open>Rows and the tracker state\<close>

text \<open>Columns of the transactions sheet, in the order of \<^verbatim>\<open>row_data\<close>.\<close>

record ledger_row =
  tx_date :: string
  tx_type :: string
  tx_wallet_type :: string
  tx_amount :: real
  tx_description :: string
  tx_balance_total :: real
  tx_balance_wallet :: real
  tx_category :: string
  tx_merchant :: string

text \<open>Columns of the lending sheet.\<close>

record lending_row =
  ln_date :: string
  ln_person :: string
  ln_amount :: real
  ln_status :: string
  ln_description :: string
  ln_return_date :: string
  ln_return_to :: string
  ln_remaining :: real

record tracker =
  transactions_sheet :: "ledger_row list option"
  lending_sheet :: "lending_row list option"

subsection \<open>Balances and transactions\<close>

text \<open>\<^verbatim>\<open>get_current_balances\<close>: the checkpoint of the last row, (0, 0) without rows or sheet.\<close>

definition get_current_balances :: "tracker \<Rightarrow> real \<times> real" where
  "get_current_balances s =
     (case transactions_sheet s of
        None \<Rightarrow> (0, 0)
      | Some records \<Rightarrow>
          (if records \<noteq> []
           then (tx_balance_total (last records), tx_balance_wallet (last records))
           else (0, 0)))"

text \<open>\<^verbatim>\<open>self.transactions_sheet.append_row(row_data)\<close>, guarded by \<^verbatim>\<open>if self.transactions_sheet\<close>.\<close>

definition append_transaction_row :: "ledger_row \<Rightarrow> tracker \<Rightarrow> tracker" where
  "append_transaction_row row_data s =
     (case transactions_sheet s of
        None \<Rightarrow> s
      | Some records \<Rightarrow> s\<lparr>transactions_sheet := Some (records @ [row_data])\<rparr>)"

text \<open>
  \<^verbatim>\<open>add_transaction(transaction_type, wallet_type, amount, description, category, merchant,
  date_override)\<close>.  The date override is given already formatted.  Any transaction type
  other than \<^verbatim>\<open>'add'\<close> takes the subtracting branch, and a wallet type other than
  \<^verbatim>\<open>'total'\<close> and \<^verbatim>\<open>'wallet'\<close> changes neither balance.
\<close>

definition add_transaction ::
  "string \<Rightarrow> string \<Rightarrow> real \<Rightarrow> string \<Rightarrow> string \<Rightarrow> string \<Rightarrow> string option \<Rightarrow> string
     \<Rightarrow> tracker \<Rightarrow> tracker \<times> (real \<times> real)" where
  "add_transaction transaction_type wallet_type amount description category merchant
       date_override now s =
     (let (total_balance0, wallet_balance0) = get_current_balances s;
          total_balance =
            (if wallet_type = ''total''
             then (if transaction_type = ''add'' then total_balance0 + amount
                   else total_balance0 - amount)
             else total_balance0);
          wallet_balance =
            (if wallet_type = ''total'' then wallet_balance0
             else if wallet_type = ''wallet''
             then (if transaction_type = ''add'' then wallet_balance0 + amount
                   else wallet_balance0 - amount)
             else wallet_balance0);
          trans_date = (case date_override of Some d \<Rightarrow> d | None \<Rightarrow> now);
          row_data = \<lparr>tx_date = trans_date, tx_type = transaction_type,
                      tx_wallet_type = wallet_type, tx_amount = amount,
                      tx_description = description, tx_balance_total = total_balance,
                      tx_balance_wallet = wallet_balance, tx_category = category,
                      tx_merchant = merchant\<rparr>
      in (append_transaction_row row_data s, (total_balance, wallet_balance)))"

text \<open>
  \<^verbatim>\<open>transfer_between_wallets(from_wallet, to_wallet, amount, description)\<close> returns
  \<^verbatim>\<open>(success, message, total_balance, wallet_balance)\<close>; every failure returns the
  balances 0, 0 and leaves before a row is built.
\<close>

definition transfer_between_wallets ::
  "string \<Rightarrow> string \<Rightarrow> real \<Rightarrow> string \<Rightarrow> string
     \<Rightarrow> tracker \<Rightarrow> tracker \<times> (bool \<times> string \<times> real \<times> real)" where
  "transfer_between_wallets from_wallet to_wallet amount description now s =
     (let (total_balance, wallet_balance) = get_current_balances s;
          moved =
            (if from_wallet = ''total'' \<and> to_wallet = ''wallet''
             then (if total_balance < amount
                   then Inl ''Insufficient balance in Total Stack''
                   else Inr (total_balance - amount, wallet_balance + amount))
             else if from_wallet = ''wallet'' \<and> to_wallet = ''total''
             then (if wallet_balance < amount
                   then Inl ''Insufficient balance in Wallet''
                   else Inr (total_balance + amount, wallet_balance - amount))
             else Inl ''Invalid transfer'')
      in case moved of
           Inl message \<Rightarrow> (s, (False, message, 0, 0))
         | Inr (total_balance', wallet_balance') \<Rightarrow>
             (append_transaction_row
                \<lparr>tx_date = now, tx_type = ''transfer'',
                 tx_wallet_type = from_wallet @ ''_to_'' @ to_wallet, tx_amount = amount,
                 tx_description = description, tx_balance_total = total_balance',
                 tx_balance_wallet = wallet_balance', tx_category = ''transfer'',
                 tx_merchant = ''''\<rparr> s,
              (True, ''Transfer successful'', total_balance', wallet_balance')))"

subsection \<open>Lending\<close>

text \<open>\<^verbatim>\<open>add_lending(person, amount, description)\<close> appends a row in status \<^verbatim>\<open>'lent'\<close>.\<close>

definition add_lending :: "string \<Rightarrow> real \<Rightarrow> string \<Rightarrow> string \<Rightarrow> tracker \<Rightarrow> tracker" where
  "add_lending person amount description now s =
     (case lending_sheet s of
        None \<Rightarrow> s
      | Some records \<Rightarrow>
          s\<lparr>lending_sheet := Some (records @
             [\<lparr>ln_date = now, ln_person = person, ln_amount = amount, ln_status = ''lent'',
               ln_description = description, ln_return_date = '''', ln_return_to = '''',
               ln_remaining = amount\<rparr>])\<rparr>)"

text \<open>
  \<^verbatim>\<open>str.lower()\<close>, on the ASCII letters; the names compared by the tracker are matched
  after lowering both sides.
\<close>

definition lower_char :: "char \<Rightarrow> char" where
  "lower_char c =
     (let n = (of_char c :: nat) in if 65 \<le> n \<and> n \<le> 90 then char_of (n + 32) else c)"

definition lower :: "string \<Rightarrow> string" where
  "lower s = map lower_char s"

text \<open>
  The loop of \<^verbatim>\<open>return_lending\<close>: \<open>records\<close> is what is left of the snapshot read
  before the loop, \<open>i\<close> the index of its head (sheet row \<open>i + 2\<close> in the source),
  \<open>remaining_to_apply\<close> the pool, and \<open>sheet\<close> the worksheet the cells are written to.
  The result is the pool left over and the worksheet.
\<close>

fun return_loop ::
  "string \<Rightarrow> string \<Rightarrow> string \<Rightarrow> nat \<Rightarrow> lending_row list \<Rightarrow> real \<Rightarrow> lending_row list
     \<Rightarrow> real \<times> lending_row list" where
  "return_loop person return_to now i [] remaining_to_apply sheet =
     (remaining_to_apply, sheet)"
| "return_loop person return_to now i (record # records) remaining_to_apply sheet =
     (if remaining_to_apply \<le> 0 then (remaining_to_apply, sheet)
      else if lower (ln_person record) = lower person \<and> ln_status record = ''lent''
      then (let current_remaining = ln_remaining record
            in if remaining_to_apply \<ge> current_remaining
               then return_loop person return_to now (Suc i) records
                      (remaining_to_apply - current_remaining)
                      (sheet[i := (sheet ! i)\<lparr>ln_status := ''returned'',
                                              ln_return_date := now,
                                              ln_return_to := return_to,
                                              ln_remaining := 0\<rparr>])
               else return_loop person return_to now (Suc i) records 0
                      (sheet[i := (sheet ! i)\<lparr>ln_status := ''partial'',
                                              ln_remaining :=
                                                current_remaining - remaining_to_apply\<rparr>]))
      else return_loop person return_to now (Suc i) records remaining_to_apply sheet)"

text \<open>
  The second component of what \<^verbatim>\<open>return_lending\<close> returns.  The source formats a
  sentence; the model keeps the values the sentence is built from.
\<close>

datatype lending_message =
    SheetsNotConnected
  | Applied real string
  | NoPendingLoans string

definition return_lending ::
  "string \<Rightarrow> real \<Rightarrow> string \<Rightarrow> string \<Rightarrow> tracker \<Rightarrow> tracker \<times> (bool \<times> lending_message)" where
  "return_lending person amount return_to now s =
     (case lending_sheet s of
        None \<Rightarrow> (s, (False, SheetsNotConnected))
      | Some records \<Rightarrow>
          (let (remaining_to_apply, sheet) =
                 return_loop person return_to now 0 records amount records;
               s1 = s\<lparr>lending_sheet := Some sheet\<rparr>
           in if remaining_to_apply < amount
              then (let applied = amount - remaining_to_apply
                    in (fst (add_transaction ''add'' return_to applied
                               (''Returned by '' @ person) ''lending'' '''' None now s1),
                        (True, Applied applied person)))
              else (s1, (False, NoPendingLoans person))))"

text \<open>\<^verbatim>\<open>get_pending_lending_for_person\<close>: what a person still owes.\<close>

definition get_pending_lending_for_person :: "string \<Rightarrow> tracker \<Rightarrow> real" where
  "get_pending_lending_for_person person s =
     (case lending_sheet s of
        None \<Rightarrow> 0
      | Some records \<Rightarrow>
          sum_list (map ln_remaining
            (filter (\<lambda>r. lower (ln_person r) = lower person
                          \<and> (ln_status r = ''lent'' \<or> ln_status r = ''partial'')) records)))"

section \<open>The analytics engine (src/paylog_ai_python/analytics.py, class ExpenseAnalytics)\<close>

text \<open>
  The analytics read the rows as dictionaries.  A point in time (\<^verbatim>\<open>datetime\<close>) is an
  integer number of microseconds; \<open>now\<close> is an explicit argument.  Of a row the model keeps
  the four entries the functions below read:
  \<^item> \<open>t_date\<close> is the value of \<^verbatim>\<open>datetime.strptime(str(t['date']), '%d/%m/%Y')\<close>, and
    \<open>None\<close> when that call raises \<^verbatim>\<open>ValueError\<close>;
  \<^item> \<open>t_type\<close> is \<^verbatim>\<open>t['type']\<close>;
  \<^item> \<open>t_amount\<close> is \<^verbatim>\<open>float(t['amount'])\<close>, and \<open>None\<close> when that call raises;
  \<^item> \<open>t_category\<close> is \<^verbatim>\<open>t['category']\<close>, and \<open>None\<close> when the key is absent.
\<close>

type_synonym datetime = int

record txn =
  t_date :: "datetime option"
  t_type :: string
  t_amount :: "real option"
  t_category :: "string option"

datatype py_error = ValueError

definition timedelta_days :: "int \<Rightarrow> int" where
  "timedelta_days days = days * 86400000000"

definition timedelta_weeks :: "int \<Rightarrow> int" where
  "timedelta_weeks weeks = timedelta_days (7 * weeks)"

subsection \<open>Averages\<close>

text \<open>
  The list comprehension of \<^verbatim>\<open>calculate_daily_average\<close>.  It is not inside a
  \<^verbatim>\<open>try\<close>: the first row whose date or amount does not parse ends the call with the
  exception.  The conditions are evaluated left to right, so the date of a row is parsed
  only when the row is a debit, and its amount only when it is inside the window.
\<close>

fun recent_expenses :: "datetime \<Rightarrow> txn list \<Rightarrow> py_error + real list" where
  "recent_expenses cutoff_date [] = Inr []"
| "recent_expenses cutoff_date (t # ts) =
     (if t_type t = ''subtract''
      then (case t_date t of
              None \<Rightarrow> Inl ValueError
            | Some d \<Rightarrow>
                if d \<ge> cutoff_date
                then (case t_amount t of
                        None \<Rightarrow> Inl ValueError
                      | Some a \<Rightarrow>
                          (case recent_expenses cutoff_date ts of
                             Inl e \<Rightarrow> Inl e
                           | Inr xs \<Rightarrow> Inr (a # xs)))
                else recent_expenses cutoff_date ts)
      else recent_expenses cutoff_date ts)"

definition calculate_daily_average :: "datetime \<Rightarrow> txn list \<Rightarrow> int \<Rightarrow> py_error + real" where
  "calculate_daily_average now transactions days =
     (if transactions = [] then Inr 0
      else (case recent_expenses (now - timedelta_days days) transactions of
              Inl e \<Rightarrow> Inl e
            | Inr xs \<Rightarrow> Inr (if days > 0 then sum_list xs / of_int days else 0)))"

text \<open>\<^verbatim>\<open>t.get('category', 'other')\<close>.\<close>

definition category_or_other :: "txn \<Rightarrow> string" where
  "category_or_other t = (case t_category t of None \<Rightarrow> ''other'' | Some c \<Rightarrow> c)"

text \<open>The list comprehension of \<^verbatim>\<open>calculate_category_average\<close>.\<close>

fun category_expenses :: "datetime \<Rightarrow> string \<Rightarrow> txn list \<Rightarrow> py_error + real list" where
  "category_expenses cutoff_date category [] = Inr []"
| "category_expenses cutoff_date category (t # ts) =
     (if t_type t = ''subtract'' \<and> category_or_other t = category
      then (case t_date t of
              None \<Rightarrow> Inl ValueError
            | Some d \<Rightarrow>
                if d \<ge> cutoff_date
                then (case t_amount t of
                        None \<Rightarrow> Inl ValueError
                      | Some a \<Rightarrow>
                          (case category_expenses cutoff_date category ts of
                             Inl e \<Rightarrow> Inl e
                           | Inr xs \<Rightarrow> Inr (a # xs)))
                else category_expenses cutoff_date category ts)
      else category_expenses cutoff_date category ts)"

definition calculate_category_average ::
  "datetime \<Rightarrow> txn list \<Rightarrow> string \<Rightarrow> int \<Rightarrow> py_error + real" where
  "calculate_category_average now transactions category days =
     (if transactions = [] then Inr 0
      else (case category_expenses (now - timedelta_days days) category transactions of
              Inl e \<Rightarrow> Inl e
            | Inr xs \<Rightarrow> Inr (sum_list xs / of_nat (max (length xs) 1))))"

subsection \<open>Trend detection\<close>

text \<open>\<^verbatim>\<open>t.get('category', 'other') or 'other'\<close>: an empty category counts as other.\<close>

definition category_or_other_nonempty :: "txn \<Rightarrow> string" where
  "category_or_other_nonempty t =
     (case t_category t of None \<Rightarrow> ''other'' | Some c \<Rightarrow> if c = [] then ''other'' else c)"

text \<open>
  One pass of the inner loop of \<^verbatim>\<open>detect_trend\<close> over a row.  The body is inside
  \<^verbatim>\<open>try ... except: continue\<close>, so a row that does not parse leaves the total as it is.
\<close>

definition week_step ::
  "datetime \<Rightarrow> datetime \<Rightarrow> string option \<Rightarrow> real \<Rightarrow> txn \<Rightarrow> real" where
  "week_step week_start week_end category week_total t =
     (case t_date t of
        None \<Rightarrow> week_total
      | Some trans_date \<Rightarrow>
          if week_start \<le> trans_date \<and> trans_date < week_end \<and> t_type t = ''subtract''
          then (if category = None \<or> category = Some (category_or_other_nonempty t)
                then (case t_amount t of None \<Rightarrow> week_total | Some a \<Rightarrow> week_total + a)
                else week_total)
          else week_total)"

definition week_total_of :: "datetime \<Rightarrow> txn list \<Rightarrow> string option \<Rightarrow> nat \<Rightarrow> real" where
  "week_total_of now transactions category week_offset =
     foldl (week_step (now - timedelta_weeks (int week_offset + 1))
                      (now - timedelta_weeks (int week_offset)) category)
           0 transactions"

text \<open>
  \<^verbatim>\<open>f"{x:.0f}"\<close> for \<open>x \<ge> 0\<close>: the nearest integer, a tie going to the even one, in
  decimal digits.
\<close>

definition round_half_even :: "real \<Rightarrow> int" where
  "round_half_even x =
     (let f = \<lfloor>x\<rfloor>; d = x - of_int f
      in if d < 1 / 2 then f else if d > 1 / 2 then f + 1 else if even f then f else f + 1)"

fun show_nat :: "nat \<Rightarrow> string" where
  "show_nat n =
     (if n < 10 then [''0123456789'' ! n]
      else show_nat (n div 10) @ [''0123456789'' ! (n mod 10)])"

declare show_nat.simps [simp del]

definition format_0f :: "real \<Rightarrow> string" where
  "format_0f x = show_nat (nat (round_half_even x))"

text \<open>The part of \<^verbatim>\<open>detect_trend\<close> after the weekly totals are collected.\<close>

definition trend_of_week_totals :: "real list \<Rightarrow> string" where
  "trend_of_week_totals week_totals0 =
     (if length week_totals0 < 2 then ''stable''
      else
        (let week_totals = rev week_totals0;
             recent_avg = sum_list (drop (length week_totals - 2) week_totals) / 2;
             older_avg = sum_list (take 2 week_totals) / 2
         in if older_avg = 0 then (if recent_avg > 0 then ''increasing'' else ''stable'')
            else
              (let change = ((recent_avg - older_avg) / older_avg) * 100
               in if change > 15 then ''increasing '' @ format_0f \<bar>change\<bar> @ ''%''
                  else if change < - 15 then ''decreasing '' @ format_0f \<bar>change\<bar> @ ''%''
                  else ''stable'')))"

definition detect_trend :: "datetime \<Rightarrow> txn list \<Rightarrow> string option \<Rightarrow> int \<Rightarrow> string" where
  "detect_trend now transactions category weeks =
     (if length transactions < 2 then ''Not enough data''
      else trend_of_week_totals
             (map (week_total_of now transactions category) [0 ..< nat weeks]))"

subsection \<open>Budget analysis\<close>

text \<open>
  \<^verbatim>\<open>category_spending[category] += x\<close> on a \<^verbatim>\<open>defaultdict(float)\<close>, kept as an
  association list in insertion order.
\<close>

fun add_spending :: "string \<Rightarrow> real \<Rightarrow> (string \<times> real) list \<Rightarrow> (string \<times> real) list" where
  "add_spending category x [] = [(category, 0 + x)]"
| "add_spending category x ((c, v) # d) =
     (if c = category then (c, v + x) # d else (c, v) # add_spending category x d)"

text \<open>
  One pass of the first loop of \<^verbatim>\<open>analyze_budget\<close>, again inside
  \<^verbatim>\<open>try ... except: continue\<close>.  The augmented assignment reads the entry, which
  creates it, before the amount is converted; an amount that does not parse therefore
  leaves an entry with nothing added.
\<close>

definition spending_step ::
  "datetime \<Rightarrow> (string \<times> real) list \<Rightarrow> txn \<Rightarrow> (string \<times> real) list" where
  "spending_step cutoff_date category_spending t =
     (if t_type t = ''subtract''
      then (case t_date t of
              None \<Rightarrow> category_spending
            | Some trans_date \<Rightarrow>
                if trans_date \<ge> cutoff_date
                then (case t_amount t of
                        None \<Rightarrow> add_spending (category_or_other_nonempty t) 0 category_spending
                      | Some a \<Rightarrow> add_spending (category_or_other_nonempty t) a category_spending)
                else category_spending)
      else category_spending)"

text \<open>\<^verbatim>\<open>category_spending.get(category, 0)\<close>.\<close>

definition spending_get :: "(string \<times> real) list \<Rightarrow> string \<Rightarrow> real" where
  "spending_get category_spending category =
     (case map_of category_spending category of None \<Rightarrow> 0 | Some v \<Rightarrow> v)"

record budget_entry =
  be_budget :: real
  be_spent :: real
  be_remaining :: real
  be_percentage :: real
  be_status :: string

text \<open>The body of the second loop of \<^verbatim>\<open>analyze_budget\<close>.\<close>

definition budget_entry_of :: "(string \<times> real) list \<Rightarrow> string \<Rightarrow> real \<Rightarrow> budget_entry" where
  "budget_entry_of category_spending category budget =
     (let spent = spending_get category_spending category;
          remaining = budget - spent;
          percentage = (if budget > 0 then spent / budget * 100 else 0);
          status =
            (if percentage \<ge> 100 then ''exceeded''
             else if percentage \<ge> 90 then ''critical''
             else if percentage \<ge> 75 then ''warning''
             else ''good'')
      in \<lparr>be_budget = budget, be_spent = spent, be_remaining = remaining,
          be_percentage = percentage, be_status = status\<rparr>)"

record budget_analysis =
  ba_categories :: "(string \<times> budget_entry) list"
  ba_total_budget :: real
  ba_total_spent :: real
  ba_total_remaining :: real
  ba_overall_percentage :: real

text \<open>\<^verbatim>\<open>analyze_budget(transactions, budgets, period_days)\<close>; \<open>budgets\<close> lists the items
  of the dictionary.\<close>

definition analyze_budget ::
  "datetime \<Rightarrow> txn list \<Rightarrow> (string \<times> real) list \<Rightarrow> int \<Rightarrow> budget_analysis" where
  "analyze_budget now transactions budgets period_days =
     (let cutoff_date = now - timedelta_days period_days;
          category_spending = foldl (spending_step cutoff_date) [] transactions;
          total_budget = sum_list (map snd budgets);
          total_spent = sum_list (map snd category_spending)
      in \<lparr>ba_categories =
            map (\<lambda>(category, budget).
                   (category, budget_entry_of category_spending category budget)) budgets,
          ba_total_budget = total_budget,
          ba_total_spent = total_spent,
          ba_total_remaining = total_budget - total_spent,
          ba_overall_percentage =
            (if total_budget > 0 then total_spent / total_budget * 100 else 0)\<rparr>)"

section \<open>The AI service (src/ai_service.py)\<close>

subsection \<open>Budget status\<close>

text \<open>
  \<^verbatim>\<open>check_budget_status(spent, budget, period)\<close>, the banding used for the alert after
  an expense is recorded.  Without a budget only the status is returned; otherwise the
  status comes with the percentage and the remaining amount.  The message is left out.
\<close>

definition check_budget_status :: "real \<Rightarrow> real \<Rightarrow> string \<times> (real \<times> real) option" where
  "check_budget_status spent budget =
     (if budget \<le> 0 then (''no_budget'', None)
      else
        (let percentage = (spent / budget) * 100;
             remaining = budget - spent;
             status =
               (if percentage \<ge> 100 then ''exceeded''
                else if percentage \<ge> 90 then ''critical''
                else if percentage \<ge> 80 then ''warning''
                else if percentage \<ge> 50 then ''moderate''
                else ''good'')
         in (status, Some (percentage, remaining))))"

subsection \<open>Financial health score\<close>

text \<open>
  The dictionary \<^verbatim>\<open>data\<close>: an entry is \<open>None\<close> when its key is absent, and every
  read is a \<^verbatim>\<open>data.get(key, dflt)\<close>.  A goal is a dictionary read the same way.
\<close>

record goal =
  g_completed :: "bool option"
  g_progress :: "real option"

record health_data =
  hd_income :: "real option"
  hd_expenses :: "real option"
  hd_budget :: "real option"
  hd_trend :: "string option"
  hd_savings :: "real option"
  hd_goals :: "goal list option"

definition get_or :: "'a option \<Rightarrow> 'a \<Rightarrow> 'a" where
  "get_or v dflt = (case v of None \<Rightarrow> dflt | Some x \<Rightarrow> x)"

text \<open>
  Each factor returns the points it adds to the score and the entries it appends to
  \<^verbatim>\<open>factors\<close> (the name and the points; the explanatory sentence is left out).
\<close>

definition savings_rate_factor :: "health_data \<Rightarrow> int \<times> (string \<times> string) list" where
  "savings_rate_factor data =
     (let income = get_or (hd_income data) 0;
          expenses = get_or (hd_expenses data) 0
      in if income > 0
         then (let savings_rate = ((income - expenses) / income) * 100
               in if savings_rate \<ge> 30 then (25, [(''Savings Rate'', ''+25'')])
                  else if savings_rate \<ge> 20 then (20, [(''Savings Rate'', ''+20'')])
                  else if savings_rate \<ge> 10 then (10, [(''Savings Rate'', ''+10'')])
                  else if savings_rate \<ge> 0 then (5, [(''Savings Rate'', ''+5'')])
                  else (- 10, [(''Savings Rate'', ''-10'')]))
         else (0, []))"

definition budget_factor :: "health_data \<Rightarrow> int \<times> (string \<times> string) list" where
  "budget_factor data =
     (let expenses = get_or (hd_expenses data) 0;
          budget = get_or (hd_budget data) 0
      in if budget > 0
         then (let budget_usage = (expenses / budget) * 100
               in if budget_usage \<le> 80 then (20, [(''Budget'', ''+20'')])
                  else if budget_usage \<le> 100 then (10, [(''Budget'', ''+10'')])
                  else (- 15, [(''Budget'', ''-15'')]))
         else (0, []))"

definition trend_factor :: "health_data \<Rightarrow> int \<times> (string \<times> string) list" where
  "trend_factor data =
     (let trend = get_or (hd_trend data) ''stable''
      in if trend = ''decreasing'' then (15, [(''Trend'', ''+15'')])
         else if trend = ''stable'' then (10, [(''Trend'', ''+10'')])
         else (- 5, [(''Trend'', ''-5'')]))"

definition emergency_fund_factor :: "health_data \<Rightarrow> int \<times> (string \<times> string) list" where
  "emergency_fund_factor data =
     (let expenses = get_or (hd_expenses data) 0;
          savings = get_or (hd_savings data) 0;
          monthly_expenses = (if expenses > 0 then expenses else 30000);
          months_covered = (if monthly_expenses > 0 then savings / monthly_expenses else 0)
      in if months_covered \<ge> 6 then (15, [(''Emergency Fund'', ''+15'')])
         else if months_covered \<ge> 3 then (10, [(''Emergency Fund'', ''+10'')])
         else if months_covered \<ge> 1 then (5, [(''Emergency Fund'', ''+5'')])
         else (- 5, [(''Emergency Fund'', ''-5'')]))"

definition goal_factor :: "health_data \<Rightarrow> int \<times> (string \<times> string) list" where
  "goal_factor data =
     (let goals = get_or (hd_goals data) [];
          active_goals = filter (\<lambda>g. \<not> get_or (g_completed g) False) goals
      in if active_goals \<noteq> []
         then (let goal_progress =
                     sum_list (map (\<lambda>g. get_or (g_progress g) 0) active_goals)
                       / of_nat (length active_goals)
               in if goal_progress \<ge> 75 then (10, [(''Goals'', ''+10'')])
                  else if goal_progress \<ge> 50 then (5, [(''Goals'', ''+5'')])
                  else (0, [(''Goals'', ''0'')]))
         else (0, []))"

text \<open>The score before the clamp: the base of 50 and the five factors in order.\<close>

definition raw_health_score :: "health_data \<Rightarrow> int" where
  "raw_health_score data =
     50 + fst (savings_rate_factor data) + fst (budget_factor data) + fst (trend_factor data)
        + fst (emergency_fund_factor data) + fst (goal_factor data)"

record health_result =
  hr_score :: int
  hr_grade :: string
  hr_factors :: "(string \<times> string) list"

text \<open>
  \<^verbatim>\<open>calculate_financial_health_score(data)\<close>; the message and the timestamp of the
  result are left out.
\<close>

definition calculate_financial_health_score :: "health_data \<Rightarrow> health_result" where
  "calculate_financial_health_score data =
     (let score = max 0 (min 100 (raw_health_score data));
          grade =
            (if score \<ge> 80 then ''A''
             else if score \<ge> 60 then ''B''
             else if score \<ge> 40 then ''C''
             else ''D'')
      in \<lparr>hr_score = score, hr_grade = grade,
          hr_factors =
            snd (savings_rate_factor data) @ snd (budget_factor data) @ snd (trend_factor data)
              @ snd (emergency_fund_factor data) @ snd (goal_factor data)\<rparr>)"

section \<open>Runs of operations and the properties they are measured against\<close>

subsection \<open>Ledger operations\<close>

text \<open>A call of one of the two operations that write the transactions sheet.\<close>

datatype ledger_op =
    RecordTransaction string string real string string string "string option"
  | TransferBetweenWallets string string real string

fun apply_ledger_op :: "string \<Rightarrow> tracker \<Rightarrow> ledger_op \<Rightarrow> tracker" where
  "apply_ledger_op now s
       (RecordTransaction transaction_type wallet_type amount description category merchant
          date_override) =
     fst (add_transaction transaction_type wallet_type amount description category merchant
            date_override now s)"
| "apply_ledger_op now s (TransferBetweenWallets from_wallet to_wallet amount description) =
     fst (transfer_between_wallets from_wallet to_wallet amount description now s)"

definition run_ledger :: "string \<Rightarrow> ledger_op list \<Rightarrow> tracker \<Rightarrow> tracker" where
  "run_ledger now ops s = foldl (apply_ledger_op now) s ops"

text \<open>A tracker whose two sheets are connected and hold no rows yet.\<close>

definition empty_tracker :: tracker where
  "empty_tracker = \<lparr>transactions_sheet = Some [], lending_sheet = Some []\<rparr>"

text \<open>
  The replay of the specification: the signed delta a stored row stands for, read from its
  type, wallet and amount columns only.  \<^verbatim>\<open>add\<close> credits and \<^verbatim>\<open>subtract\<close> debits the
  wallet the row names; a \<^verbatim>\<open>transfer\<close> row moves the amount in the direction of its
  tag; any other row stands for no change.
\<close>

definition signed_delta :: "ledger_row \<Rightarrow> real \<times> real" where
  "signed_delta r =
     (if tx_type r = ''add'' \<and> tx_wallet_type r = ''total'' then (tx_amount r, 0)
      else if tx_type r = ''add'' \<and> tx_wallet_type r = ''wallet'' then (0, tx_amount r)
      else if tx_type r = ''subtract'' \<and> tx_wallet_type r = ''total'' then (- tx_amount r, 0)
      else if tx_type r = ''subtract'' \<and> tx_wallet_type r = ''wallet'' then (0, - tx_amount r)
      else if tx_type r = ''transfer'' \<and> tx_wallet_type r = ''total_to_wallet''
      then (- tx_amount r, tx_amount r)
      else if tx_type r = ''transfer'' \<and> tx_wallet_type r = ''wallet_to_total''
      then (tx_amount r, - tx_amount r)
      else (0, 0))"

definition replay_balances :: "ledger_row list \<Rightarrow> real \<times> real" where
  "replay_balances rows =
     foldl (\<lambda>(total, wallet) r. (total + fst (signed_delta r), wallet + snd (signed_delta r)))
           (0, 0) rows"

text \<open>The checkpoint a list of rows ends with: that of its last row, (0, 0) without rows.\<close>

definition stored_checkpoint :: "ledger_row list \<Rightarrow> real \<times> real" where
  "stored_checkpoint rows =
     (if rows = [] then (0, 0)
      else (tx_balance_total (last rows), tx_balance_wallet (last rows)))"

definition ledger_rows :: "tracker \<Rightarrow> ledger_row list" where
  "ledger_rows s = get_or (transactions_sheet s) []"

subsection \<open>Lending operations\<close>




definition lending_rows :: "tracker \<Rightarrow> lending_row list" where
  "lending_rows s = get_or (lending_sheet s) []"






subsection \<open>Example states\<close>

text \<open>A ledger with one row: 40 in the wallet, nothing in the total stack.\<close>

definition example_ledger :: tracker where
  "example_ledger =
     \<lparr>transactions_sheet = Some
        [\<lparr>tx_date = ''01/11/2026'', tx_type = ''add'', tx_wallet_type = ''wallet'',
          tx_amount = 40, tx_description = ''cash'', tx_balance_total = 0,
          tx_balance_wallet = 40, tx_category = ''income'', tx_merchant = []\<rparr>],
      lending_sheet = Some []\<rparr>"

text \<open>
  A debit row whose date and amount parse: \<open>day\<close> counts days, and the date is midnight
  of that day.
\<close>

definition debit :: "int \<Rightarrow> real \<Rightarrow> string \<Rightarrow> txn" where
  "debit day amount category =
     \<lparr>t_date = Some (timedelta_days day), t_type = ''subtract'', t_amount = Some amount,
      t_category = Some category\<rparr>"

text \<open>Noon of day 100.\<close>

definition example_now :: datetime where
  "example_now = timedelta_days 100 + 43200000000"

text \<open>One debit in each of the last four weeks: 100, 100, 130 and 130, oldest first.\<close>

definition example_transactions :: "txn list" where
  "example_transactions =
     [debit 76 100 ''food'', debit 83 100 ''food'', debit 90 130 ''food'',
      debit 97 130 ''food'']"

text \<open>A debit of 5 on food whose date cell does not parse.\<close>

definition corrupt_debit :: txn where
  "corrupt_debit =
     \<lparr>t_date = None, t_type = ''subtract'', t_amount = Some 5, t_category = Some ''food''\<rparr>"

subsection \<open>The rows an average is taken over\<close>

text \<open>
  The debits of a list inside the window of \<open>days\<close> days that ends now, and those of one
  category among them; the amount of a row, 0 when it does not parse.
\<close>

definition in_window :: "datetime \<Rightarrow> int \<Rightarrow> txn \<Rightarrow> bool" where
  "in_window now days t =
     (case t_date t of None \<Rightarrow> False | Some d \<Rightarrow> d \<ge> now - timedelta_days days)"

definition window_debits :: "datetime \<Rightarrow> int \<Rightarrow> txn list \<Rightarrow> txn list" where
  "window_debits now days transactions =
     filter (\<lambda>t. t_type t = ''subtract'' \<and> in_window now days t) transactions"

definition category_window_debits ::
  "datetime \<Rightarrow> int \<Rightarrow> string \<Rightarrow> txn list \<Rightarrow> txn list" where
  "category_window_debits now days category transactions =
     filter (\<lambda>t. category_or_other t = category) (window_debits now days transactions)"

definition amount_of :: "txn \<Rightarrow> real" where
  "amount_of t = get_or (t_amount t) 0"

text \<open>
  A row the two averages can read: if it is a debit its date parses, and if it is a debit
  inside the window its amount parses.
\<close>

definition readable :: "datetime \<Rightarrow> int \<Rightarrow> txn \<Rightarrow> bool" where
  "readable now days t =
     (if t_type t = ''subtract''
      then (t_date t \<noteq> None \<and> (if in_window now days t then t_amount t \<noteq> None else True))
      else True)"

subsection \<open>Calls within the contract of the operations\<close>

text \<open>
  A call that records a transaction names one of the two signed kinds, \<^verbatim>\<open>add\<close> or
  \<^verbatim>\<open>subtract\<close>; a transfer is not restricted.
\<close>

fun signed_kind :: "ledger_op \<Rightarrow> bool" where
  "signed_kind (RecordTransaction transaction_type wallet_type amount description category
                  merchant date_override) =
     (transaction_type = ''add'' \<or> transaction_type = ''subtract'')"
| "signed_kind (TransferBetweenWallets from_wallet to_wallet amount description) = True"

subsection \<open>Invariants used in the proofs\<close>

text \<open>
  A tracker whose ledger is connected and whose rows replay to their checkpoints, prefix
  by prefix.
\<close>

definition replays :: "tracker \<Rightarrow> bool" where
  "replays s =
     (\<exists>rows. transactions_sheet s = Some rows
        \<and> (\<forall>n. replay_balances (take n rows) = stored_checkpoint (take n rows)))"

text \<open>
  The loop of \<^verbatim>\<open>return_lending\<close> written as a recursion over the rows alone: the pool
  left over and the rows as the loop leaves them.  It is the loop \<open>return_loop\<close> run on a
  worksheet that holds the snapshot, which is how \<^verbatim>\<open>return_lending\<close> runs it.
\<close>

fun allocate_rows ::
  "string \<Rightarrow> string \<Rightarrow> string \<Rightarrow> lending_row list \<Rightarrow> real \<Rightarrow> real \<times> lending_row list" where
  "allocate_rows person return_to now [] pool = (pool, [])"
| "allocate_rows person return_to now (r # rs) pool =
     (if pool \<le> 0 then (pool, r # rs)
      else if lower (ln_person r) = lower person \<and> ln_status r = ''lent''
      then (if pool \<ge> ln_remaining r
            then (fst (allocate_rows person return_to now rs (pool - ln_remaining r)),
                  r\<lparr>ln_status := ''returned'', ln_return_date := now,
                    ln_return_to := return_to, ln_remaining := 0\<rparr>
                  # snd (allocate_rows person return_to now rs (pool - ln_remaining r)))
            else (fst (allocate_rows person return_to now rs 0),
                  r\<lparr>ln_status := ''partial'', ln_remaining := ln_remaining r - pool\<rparr>
                  # snd (allocate_rows person return_to now rs 0)))
      else (fst (allocate_rows person return_to now rs pool),
            r # snd (allocate_rows person return_to now rs pool)))"





section \<open>Properties of the transaction engine\<close>

lemma get_current_balances_rows:
  "transactions_sheet s = Some records \<Longrightarrow>
   get_current_balances s = stored_checkpoint records"
  by (simp add: get_current_balances_def stored_checkpoint_def)

lemma example_ledger_balances: "get_current_balances example_ledger = (0, 40)"
  by (simp add: get_current_balances_def example_ledger_def)

subsection \<open>A wallet type that names no wallet\<close>

text \<open>
  Claim C10.  When \<^verbatim>\<open>add_transaction\<close> is called with a wallet type that is neither
  \<^verbatim>\<open>'total'\<close> nor \<^verbatim>\<open>'wallet'\<close> and the transactions sheet is connected, one row is
  appended whose two checkpoints are the balances before the call, the pair returned is
  that same pair, and the current balances after the call are what they were before: the
  amount reaches neither balance.
\<close>

theorem add_transaction_unknown_wallet:
  assumes "wallet_type \<noteq> ''total''" and "wallet_type \<noteq> ''wallet''"
    and "transactions_sheet s = Some rows"
  shows "add_transaction transaction_type wallet_type amount description category merchant
           date_override now s =
         (s\<lparr>transactions_sheet := Some (rows @
              [\<lparr>tx_date = (case date_override of Some d \<Rightarrow> d | None \<Rightarrow> now),
                tx_type = transaction_type, tx_wallet_type = wallet_type, tx_amount = amount,
                tx_description = description,
                tx_balance_total = fst (get_current_balances s),
                tx_balance_wallet = snd (get_current_balances s),
                tx_category = category, tx_merchant = merchant\<rparr>])\<rparr>,
          get_current_balances s)
         \<and> get_current_balances
              (fst (add_transaction transaction_type wallet_type amount description category
                      merchant date_override now s)) = get_current_balances s"
  using assms
  by (simp add: add_transaction_def append_transaction_row_def get_current_balances_def
      split: prod.splits)

theorem add_transaction_unknown_wallet_witness:
  "add_transaction ''add'' ''total_to_wallet'' 25 ''typo'' ''misc'' [] None ''03/11/2026''
     example_ledger
   = (example_ledger\<lparr>transactions_sheet := Some
        [\<lparr>tx_date = ''01/11/2026'', tx_type = ''add'', tx_wallet_type = ''wallet'',
          tx_amount = 40, tx_description = ''cash'', tx_balance_total = 0,
          tx_balance_wallet = 40, tx_category = ''income'', tx_merchant = []\<rparr>,
         \<lparr>tx_date = ''03/11/2026'', tx_type = ''add'', tx_wallet_type = ''total_to_wallet'',
          tx_amount = 25, tx_description = ''typo'', tx_balance_total = 0,
          tx_balance_wallet = 40, tx_category = ''misc'', tx_merchant = []\<rparr>]\<rparr>,
      (0, 40))"
  using add_transaction_unknown_wallet [of "''total_to_wallet''" example_ledger
      "[\<lparr>tx_date = ''01/11/2026'', tx_type = ''add'', tx_wallet_type = ''wallet'',
          tx_amount = 40, tx_description = ''cash'', tx_balance_total = 0,
          tx_balance_wallet = 40, tx_category = ''income'', tx_merchant = []\<rparr>]"
      "''add''" 25 "''typo''" "''misc''" "[]" None "''03/11/2026''"]
  by (simp add: example_ledger_balances) (simp add: example_ledger_def)

subsection \<open>Transfers\<close>

text \<open>
  Claim C4.  On a connected transactions sheet, \<^verbatim>\<open>transfer_between_wallets\<close> fails
  when the source wallet holds less than the amount, and fails when the two ends are equal
  or one of them is neither \<^verbatim>\<open>'total'\<close> nor \<^verbatim>\<open>'wallet'\<close>; it succeeds exactly in
  the two remaining cases.  A failure leaves the tracker, and so both balances, as they
  were (and returns the pair 0, 0).  A success appends exactly one row, of type and
  category \<^verbatim>\<open>'transfer'\<close>, tagged with the two ends joined by \<^verbatim>\<open>_to_\<close>, whose
  checkpoints are the balances returned.
\<close>

theorem transfer_between_wallets_guard:
  assumes "transactions_sheet s = Some rows"
    and "get_current_balances s = (total_balance, wallet_balance)"
    and "transfer_between_wallets from_wallet to_wallet amount description now s =
           (s', success, message, total', wallet')"
  shows "(from_wallet = ''total'' \<and> to_wallet = ''wallet'' \<and> total_balance < amount
            \<longrightarrow> \<not> success \<and> message = ''Insufficient balance in Total Stack'')
       \<and> (from_wallet = ''wallet'' \<and> to_wallet = ''total'' \<and> wallet_balance < amount
            \<longrightarrow> \<not> success \<and> message = ''Insufficient balance in Wallet'')
       \<and> (from_wallet = to_wallet \<or> from_wallet \<notin> {''total'', ''wallet''}
              \<or> to_wallet \<notin> {''total'', ''wallet''}
            \<longrightarrow> \<not> success \<and> message = ''Invalid transfer'')
       \<and> (success \<longleftrightarrow>
              (from_wallet = ''total'' \<and> to_wallet = ''wallet'' \<and> amount \<le> total_balance)
            \<or> (from_wallet = ''wallet'' \<and> to_wallet = ''total'' \<and> amount \<le> wallet_balance))
       \<and> (\<not> success \<longrightarrow> s' = s \<and> get_current_balances s' = get_current_balances s
              \<and> total' = 0 \<and> wallet' = 0)
       \<and> (success \<longrightarrow>
             (\<exists>row. s' = s\<lparr>transactions_sheet := Some (rows @ [row])\<rparr>
                \<and> tx_type row = ''transfer''
                \<and> tx_wallet_type row = from_wallet @ ''_to_'' @ to_wallet
                \<and> tx_category row = ''transfer''
                \<and> tx_amount row = amount
                \<and> tx_balance_total row = total' \<and> tx_balance_wallet row = wallet')
             \<and> get_current_balances s' = (total', wallet'))"
  using assms
  by (auto simp add: transfer_between_wallets_def append_transaction_row_def
      get_current_balances_def split: if_splits)

theorem transfer_between_wallets_guard_witness:
  "transfer_between_wallets ''wallet'' ''total'' 41 ''Transfer'' ''03/11/2026'' example_ledger
   = (example_ledger, False, ''Insufficient balance in Wallet'', 0, 0)
   \<and> snd (transfer_between_wallets ''wallet'' ''total'' 15 ''Transfer'' ''03/11/2026''
            example_ledger)
     = (True, ''Transfer successful'', 15, 25)
   \<and> ledger_rows (fst (transfer_between_wallets ''wallet'' ''total'' 15 ''Transfer''
                         ''03/11/2026'' example_ledger))
     = ledger_rows example_ledger
       @ [\<lparr>tx_date = ''03/11/2026'', tx_type = ''transfer'',
           tx_wallet_type = ''wallet_to_total'', tx_amount = 15,
           tx_description = ''Transfer'', tx_balance_total = 15, tx_balance_wallet = 25,
           tx_category = ''transfer'', tx_merchant = []\<rparr>]"
proof -
  obtain s' success message total' wallet' where
    r: "transfer_between_wallets ''wallet'' ''total'' 41 ''Transfer'' ''03/11/2026''
          example_ledger = (s', success, message, total', wallet')"
    by (metis prod_cases5)
  have sh: "transactions_sheet example_ledger = Some
        [\<lparr>tx_date = ''01/11/2026'', tx_type = ''add'', tx_wallet_type = ''wallet'',
          tx_amount = 40, tx_description = ''cash'', tx_balance_total = 0,
          tx_balance_wallet = 40, tx_category = ''income'', tx_merchant = []\<rparr>]"
    by (simp add: example_ledger_def)
  from transfer_between_wallets_guard [OF sh example_ledger_balances r]
  have "\<not> success" and "message = ''Insufficient balance in Wallet''" and "s' = example_ledger"
    and "total' = 0" and "wallet' = 0"
    by simp_all
  then have failure: "transfer_between_wallets ''wallet'' ''total'' 41 ''Transfer''
      ''03/11/2026'' example_ledger
      = (example_ledger, False, ''Insufficient balance in Wallet'', 0, 0)"
    using r by simp
  have success: "transfer_between_wallets ''wallet'' ''total'' 15 ''Transfer'' ''03/11/2026''
       example_ledger
     = (example_ledger\<lparr>transactions_sheet := Some
          [\<lparr>tx_date = ''01/11/2026'', tx_type = ''add'', tx_wallet_type = ''wallet'',
            tx_amount = 40, tx_description = ''cash'', tx_balance_total = 0,
            tx_balance_wallet = 40, tx_category = ''income'', tx_merchant = []\<rparr>,
           \<lparr>tx_date = ''03/11/2026'', tx_type = ''transfer'',
            tx_wallet_type = ''wallet_to_total'', tx_amount = 15,
            tx_description = ''Transfer'', tx_balance_total = 15, tx_balance_wallet = 25,
            tx_category = ''transfer'', tx_merchant = []\<rparr>]\<rparr>,
        True, ''Transfer successful'', 15, 25)"
    by (simp add: transfer_between_wallets_def example_ledger_balances
        append_transaction_row_def sh)
  show ?thesis
    unfolding failure success by (simp add: ledger_rows_def get_or_def sh)
qed

subsection \<open>Repayments\<close>

text \<open>
  Claim C5.  With exactly two loans to a person on the lending sheet, 100 recorded first
  and 200 second, a repayment of 150 by that person closes the first loan (status
  \<^verbatim>\<open>'returned'\<close>, remaining 0, stamped with the date and the target wallet), leaves
  the second in status \<^verbatim>\<open>'partial'\<close> with 150 remaining, and appends one
  \<^verbatim>\<open>'add'\<close> transaction of 150 in category \<^verbatim>\<open>'lending'\<close>, written against the target
  wallet: its checkpoint credits the total stack when the target is \<^verbatim>\<open>'total'\<close> and
  the wallet when it is \<^verbatim>\<open>'wallet'\<close>.
\<close>

theorem oldest_first_allocation:
  "return_lending person 150 return_to now
     (add_lending person 200 description2 day2
        (add_lending person 100 description1 day1
           \<lparr>transactions_sheet = Some rows, lending_sheet = Some []\<rparr>))
   = (\<lparr>transactions_sheet = Some (rows @
         [\<lparr>tx_date = now, tx_type = ''add'', tx_wallet_type = return_to, tx_amount = 150,
           tx_description = ''Returned by '' @ person,
           tx_balance_total =
             (if return_to = ''total'' then fst (stored_checkpoint rows) + 150
              else fst (stored_checkpoint rows)),
           tx_balance_wallet =
             (if return_to = ''wallet'' then snd (stored_checkpoint rows) + 150
              else snd (stored_checkpoint rows)),
           tx_category = ''lending'', tx_merchant = []\<rparr>]),
       lending_sheet = Some
         [\<lparr>ln_date = day1, ln_person = person, ln_amount = 100, ln_status = ''returned'',
           ln_description = description1, ln_return_date = now, ln_return_to = return_to,
           ln_remaining = 0\<rparr>,
          \<lparr>ln_date = day2, ln_person = person, ln_amount = 200, ln_status = ''partial'',
           ln_description = description2, ln_return_date = [], ln_return_to = [],
           ln_remaining = 150\<rparr>]\<rparr>,
      (True, Applied 150 person))"
  by (simp add: return_lending_def add_lending_def add_transaction_def Let_def
      append_transaction_row_def get_current_balances_def stored_checkpoint_def)

text \<open>
  Claim C1.  The loop of \<^verbatim>\<open>return_lending\<close> takes a row only in status
  \<^verbatim>\<open>'lent'\<close>, so a row it has left in status \<^verbatim>\<open>'partial'\<close> receives nothing more.
  After a loan of 100 to bob and a repayment of 30, the row is partial with 70 remaining
  and \<^verbatim>\<open>get_pending_lending_for_person\<close> reports 70 pending; a further repayment of
  70 fails with no pending loans and changes nothing.
\<close>

theorem partial_row_not_eligible:
  "return_lending ''bob'' 70 ''wallet'' ''03/11/2026''
     (fst (return_lending ''bob'' 30 ''wallet'' ''02/11/2026''
        (add_lending ''bob'' 100 ''lunch'' ''01/11/2026'' empty_tracker)))
   = (fst (return_lending ''bob'' 30 ''wallet'' ''02/11/2026''
        (add_lending ''bob'' 100 ''lunch'' ''01/11/2026'' empty_tracker)),
      (False, NoPendingLoans ''bob''))
   \<and> lending_rows (fst (return_lending ''bob'' 30 ''wallet'' ''02/11/2026''
        (add_lending ''bob'' 100 ''lunch'' ''01/11/2026'' empty_tracker)))
     = [\<lparr>ln_date = ''01/11/2026'', ln_person = ''bob'', ln_amount = 100,
         ln_status = ''partial'', ln_description = ''lunch'', ln_return_date = [],
         ln_return_to = [], ln_remaining = 70\<rparr>]
   \<and> get_pending_lending_for_person ''bob''
       (fst (return_lending ''bob'' 30 ''wallet'' ''02/11/2026''
          (add_lending ''bob'' 100 ''lunch'' ''01/11/2026'' empty_tracker))) = 70"
  by (simp add: return_lending_def add_lending_def add_transaction_def empty_tracker_def
      append_transaction_row_def get_current_balances_def lending_rows_def get_or_def
      get_pending_lending_for_person_def)

section \<open>Properties of the AI service\<close>

lemma savings_rate_factor_bounds:
  "- 10 \<le> fst (savings_rate_factor data) \<and> fst (savings_rate_factor data) \<le> 25"
  by (simp add: savings_rate_factor_def Let_def)

lemma budget_factor_bounds:
  "- 15 \<le> fst (budget_factor data) \<and> fst (budget_factor data) \<le> 20"
  by (simp add: budget_factor_def Let_def)

lemma trend_factor_bounds:
  "- 5 \<le> fst (trend_factor data) \<and> fst (trend_factor data) \<le> 15"
  by (simp add: trend_factor_def Let_def)

lemma emergency_fund_factor_bounds:
  "- 5 \<le> fst (emergency_fund_factor data) \<and> fst (emergency_fund_factor data) \<le> 15"
  by (simp add: emergency_fund_factor_def Let_def)

lemma goal_factor_bounds:
  "0 \<le> fst (goal_factor data) \<and> fst (goal_factor data) \<le> 10"
  by (simp add: goal_factor_def Let_def)

lemma raw_health_score_bounds: "15 \<le> raw_health_score data \<and> raw_health_score data \<le> 135"
  using savings_rate_factor_bounds [of data] budget_factor_bounds [of data]
    trend_factor_bounds [of data] emergency_fund_factor_bounds [of data]
    goal_factor_bounds [of data]
  unfolding raw_health_score_def by linarith

text \<open>
  Claim C8.  For every input, the score returned by
  \<^verbatim>\<open>calculate_financial_health_score\<close> is the raw score clamped to the range from 0 to
  100, so it lies in that range; the grade is A from 80, B from 60, C from 40 and D
  below, so it is always one of the four letters.
\<close>

theorem health_score_clamped:
  "hr_score (calculate_financial_health_score data) =
     max 0 (min 100 (raw_health_score data))
   \<and> 0 \<le> hr_score (calculate_financial_health_score data)
   \<and> hr_score (calculate_financial_health_score data) \<le> 100
   \<and> hr_grade (calculate_financial_health_score data) =
       (if hr_score (calculate_financial_health_score data) \<ge> 80 then ''A''
        else if hr_score (calculate_financial_health_score data) \<ge> 60 then ''B''
        else if hr_score (calculate_financial_health_score data) \<ge> 40 then ''C''
        else ''D'')
   \<and> hr_grade (calculate_financial_health_score data) \<in> {''A'', ''B'', ''C'', ''D''}"
  by (simp add: calculate_financial_health_score_def Let_def)

section \<open>Properties of the analytics engine\<close>

subsection \<open>Averages\<close>

lemma recent_expenses_readable:
  "list_all (readable now days) ts \<Longrightarrow>
   recent_expenses (now - timedelta_days days) ts =
     Inr (map amount_of (window_debits now days ts))"
  by (induction ts)
     (auto simp add: readable_def in_window_def window_debits_def amount_of_def get_or_def
       split: option.splits if_splits)

lemma category_expenses_readable:
  "list_all (readable now days) ts \<Longrightarrow>
   category_expenses (now - timedelta_days days) category ts =
     Inr (map amount_of (category_window_debits now days category ts))"
  by (induction ts)
     (auto simp add: readable_def in_window_def window_debits_def amount_of_def get_or_def
       category_window_debits_def split: option.splits if_splits)

text \<open>
  The two divisors, on rows that can be read.  For a window of \<open>days > 0\<close> and a
  list whose rows can be read, \<^verbatim>\<open>calculate_daily_average\<close> returns the sum of the amounts of the debits inside the
  window divided by \<open>days\<close>, whatever the number of days with activity, and
  \<^verbatim>\<open>calculate_category_average\<close> returns the sum of the amounts of the debits of the
  category inside the window divided by the greater of their count and 1.
\<close>

theorem averages_divisors:
  assumes "0 < days" and "list_all (readable now days) transactions"
  shows "calculate_daily_average now transactions days =
           Inr (sum_list (map amount_of (window_debits now days transactions)) / of_int days)
       \<and> calculate_category_average now transactions category days =
           Inr (sum_list (map amount_of (category_window_debits now days category transactions))
                / of_nat (max (length (category_window_debits now days category transactions)) 1))"
  using assms
  by (simp add: calculate_daily_average_def calculate_category_average_def
      recent_expenses_readable category_expenses_readable window_debits_def
      category_window_debits_def)


theorem averages_divisors_witness:
  "calculate_daily_average example_now example_transactions 14 = Inr (130 / 7)
   \<and> calculate_category_average example_now example_transactions ''food'' 14 = Inr 130"
proof -
  have r: "list_all (readable example_now 14) example_transactions"
    by (simp add: readable_def in_window_def example_transactions_def debit_def
        example_now_def timedelta_days_def)
  have w: "window_debits example_now 14 example_transactions =
             [debit 90 130 ''food'', debit 97 130 ''food'']"
    by (simp add: window_debits_def in_window_def example_transactions_def debit_def
        example_now_def timedelta_days_def)
  have c: "category_window_debits example_now 14 ''food'' example_transactions =
             [debit 90 130 ''food'', debit 97 130 ''food'']"
    by (simp add: category_window_debits_def w) (simp add: category_or_other_def debit_def)
  have a: "amount_of (debit 90 130 ''food'') = 130" "amount_of (debit 97 130 ''food'') = 130"
    by (simp_all add: amount_of_def debit_def get_or_def)
  from averages_divisors [of 14 example_now example_transactions "''food''"] r
  show ?thesis by (simp add: w c a)
qed

text \<open>
  Claim C9.  Neither \<^verbatim>\<open>calculate_daily_average\<close> nor
  \<^verbatim>\<open>calculate_category_average\<close> returns an average for every list: their list
  comprehensions parse dates and amounts outside any \<^verbatim>\<open>try\<close>.  With one debit whose
  date does not parse put before four good debits, both calls end with \<^verbatim>\<open>ValueError\<close>,
  where the good debits alone give 460 / 30 and 460 / 4.  On the same list
  \<^verbatim>\<open>analyze_budget\<close> and \<^verbatim>\<open>detect_trend\<close>, whose loops skip a row that does
  not parse, still total 460 and answer \<^verbatim>\<open>"increasing 30%"\<close>.
\<close>

theorem averages_raise_on_corrupt_row:
  "calculate_daily_average example_now (corrupt_debit # example_transactions) 30
     = Inl ValueError
   \<and> calculate_category_average example_now (corrupt_debit # example_transactions) ''food'' 30
     = Inl ValueError
   \<and> calculate_daily_average example_now example_transactions 30 = Inr (460 / 30)
   \<and> calculate_category_average example_now example_transactions ''food'' 30 = Inr (460 / 4)
   \<and> ba_total_spent
       (analyze_budget example_now (corrupt_debit # example_transactions) [] 30) = 460
   \<and> detect_trend example_now (corrupt_debit # example_transactions) None 4
     = ''increasing 30%''"
  by (simp add: calculate_daily_average_def calculate_category_average_def corrupt_debit_def
      category_or_other_def example_transactions_def debit_def example_now_def
      timedelta_days_def timedelta_weeks_def analyze_budget_def spending_step_def
      category_or_other_nonempty_def detect_trend_def trend_of_week_totals_def
      week_total_of_def week_step_def format_0f_def round_half_even_def show_nat.simps upt_rec)

subsection \<open>Trend detection\<close>

lemma example_week_totals:
  "map (week_total_of example_now example_transactions None) [0 ..< 4] = [130, 130, 100, 100]"
  by (simp add: week_total_of_def week_step_def example_transactions_def debit_def
      example_now_def timedelta_days_def timedelta_weeks_def upt_rec)

lemma format_0f_30: "format_0f 30 = ''30''"
  by (simp add: format_0f_def round_half_even_def show_nat.simps)

lemma sum_last_two:
  assumes "2 \<le> n"
  shows "sum_list (drop (length (rev (map W [0 ..< n])) - 2) (rev (map W [0 ..< n])))
         = W 1 + W 0"
proof -
  have t: "take 2 [0 ..< n] = [0, 1]"
    using assms by (simp add: take_upt upt_rec)
  have "drop (n - 2) (rev (map W [0 ..< n])) = rev (take 2 (map W [0 ..< n]))"
    using assms by (simp add: drop_rev)
  also have "\<dots> = rev (map W (take 2 [0 ..< n]))"
    by (simp add: take_map)
  finally show ?thesis by (simp add: t)
qed

lemma sum_first_two:
  assumes "2 \<le> n"
  shows "sum_list (take 2 (rev (map W [0 ..< n]))) = W (n - 1) + W (n - 2)"
proof -
  have d: "drop (n - 2) [0 ..< n] = [n - 2, n - 1]"
  proof -
    from assms obtain m where m: "n = Suc (Suc m)"
      by (metis Suc_le_D numeral_2_eq_2 Suc_le_mono)
    show ?thesis unfolding m by (simp add: drop_upt)
  qed
  have "take 2 (rev (map W [0 ..< n])) = rev (map W (drop (n - 2) [0 ..< n]))"
    by (simp add: take_rev drop_map del: drop_upt)
  also have "\<dots> = rev (map W [n - 2, n - 1])"
    by (simp only: d)
  finally show ?thesis by simp
qed

lemma trend_of_week_totals_eq:
  assumes "2 \<le> n"
  shows "trend_of_week_totals (map W [0 ..< n]) =
     (let recent_avg = (W 1 + W 0) / 2; older_avg = (W (n - 1) + W (n - 2)) / 2
      in if older_avg = 0 then (if recent_avg > 0 then ''increasing'' else ''stable'')
         else
           (let change = ((recent_avg - older_avg) / older_avg) * 100
            in if change > 15 then ''increasing '' @ format_0f \<bar>change\<bar> @ ''%''
               else if change < - 15 then ''decreasing '' @ format_0f \<bar>change\<bar> @ ''%''
               else ''stable''))"
proof -
  have l: "\<not> length (map W [0 ..< n]) < 2" using assms by simp
  show ?thesis
    unfolding trend_of_week_totals_def Let_def if_not_P [OF l]
      sum_last_two [OF assms] sum_first_two [OF assms] ..
qed

text \<open>
  Claim C7, as amended.  With fewer than two transactions \<^verbatim>\<open>detect_trend\<close> returns
  \<^verbatim>\<open>"Not enough data"\<close>.  Otherwise, with fewer than two weekly buckets it returns
  \<^verbatim>\<open>"stable"\<close>; with two or more it takes the average of the two most recent buckets
  and that of the two oldest.  When the older average is 0 it returns \<^verbatim>\<open>"increasing"\<close>,
  without a percentage, if the recent average is positive, and \<^verbatim>\<open>"stable"\<close> if not.
  When the older average is not 0 it returns \<^verbatim>\<open>"increasing X%"\<close> for a change above
  15 per cent, \<^verbatim>\<open>"decreasing X%"\<close> for a change below minus 15 per cent, and
  \<^verbatim>\<open>"stable"\<close> in between, X being the size of the change rounded to an integer.
  Weekly totals of 100, 100, 130 and 130, oldest first, give \<^verbatim>\<open>"increasing 30%"\<close>.
\<close>

theorem detect_trend_bands:
  "(length transactions < 2 \<longrightarrow>
      detect_trend now transactions category weeks = ''Not enough data'')
   \<and> (2 \<le> length transactions \<and> weeks < 2 \<longrightarrow>
      detect_trend now transactions category weeks = ''stable'')
   \<and> (2 \<le> length transactions \<and> 2 \<le> weeks \<longrightarrow>
      detect_trend now transactions category weeks =
        (let recent_avg = (week_total_of now transactions category 1
                           + week_total_of now transactions category 0) / 2;
             older_avg = (week_total_of now transactions category (nat weeks - 1)
                          + week_total_of now transactions category (nat weeks - 2)) / 2
         in if older_avg = 0 then (if recent_avg > 0 then ''increasing'' else ''stable'')
            else
              (let change = ((recent_avg - older_avg) / older_avg) * 100
               in if change > 15 then ''increasing '' @ format_0f \<bar>change\<bar> @ ''%''
                  else if change < - 15 then ''decreasing '' @ format_0f \<bar>change\<bar> @ ''%''
                  else ''stable'')))
   \<and> (2 \<le> length transactions
        \<and> map (week_total_of now transactions category) [0 ..< 4] = [130, 130, 100, 100] \<longrightarrow>
      detect_trend now transactions category 4 = ''increasing 30%'')"
proof (intro conjI impI)
  assume "length transactions < 2"
  then show "detect_trend now transactions category weeks = ''Not enough data''"
    by (simp add: detect_trend_def)
next
  assume a: "2 \<le> length transactions \<and> weeks < 2"
  then have "nat weeks < 2" by linarith
  with a show "detect_trend now transactions category weeks = ''stable''"
    by (simp add: detect_trend_def trend_of_week_totals_def)
next
  assume a: "2 \<le> length transactions \<and> 2 \<le> weeks"
  then have n: "2 \<le> nat weeks" by linarith
  from a have l: "\<not> length transactions < 2" by simp
  show "detect_trend now transactions category weeks =
        (let recent_avg = (week_total_of now transactions category 1
                           + week_total_of now transactions category 0) / 2;
             older_avg = (week_total_of now transactions category (nat weeks - 1)
                          + week_total_of now transactions category (nat weeks - 2)) / 2
         in if older_avg = 0 then (if recent_avg > 0 then ''increasing'' else ''stable'')
            else
              (let change = ((recent_avg - older_avg) / older_avg) * 100
               in if change > 15 then ''increasing '' @ format_0f \<bar>change\<bar> @ ''%''
                  else if change < - 15 then ''decreasing '' @ format_0f \<bar>change\<bar> @ ''%''
                  else ''stable''))"
    unfolding detect_trend_def if_not_P [OF l] trend_of_week_totals_eq [OF n] ..
next
  assume a: "2 \<le> length transactions
        \<and> map (week_total_of now transactions category) [0 ..< 4] = [130, 130, 100, 100]"
  then have l: "\<not> length transactions < 2" by simp
  have "detect_trend now transactions category 4 = trend_of_week_totals [130, 130, 100, 100]"
    using a by (simp add: detect_trend_def)
  also have "\<dots> = ''increasing 30%''"
    by (simp add: trend_of_week_totals_def format_0f_30)
  finally show "detect_trend now transactions category 4 = ''increasing 30%''" .
qed

theorem detect_trend_bands_witness:
  "detect_trend example_now example_transactions None 4 = ''increasing 30%''"
proof -
  have "2 \<le> length example_transactions"
    by (simp add: example_transactions_def)
  with detect_trend_bands [of example_transactions example_now None 4] example_week_totals
  show ?thesis by blast
qed

text \<open>
  Where claim C7 fails as stated: two debits of 50 in the two most recent weeks and
  nothing in the two weeks before.  The older average is 0, and the result is
  \<^verbatim>\<open>"increasing"\<close> with no percentage, which is none of the four answers of the claim.
\<close>

theorem detect_trend_zero_baseline:
  "detect_trend example_now [debit 90 50 ''food'', debit 97 50 ''food''] None 4 = ''increasing''
   \<and> map (week_total_of example_now [debit 90 50 ''food'', debit 97 50 ''food''] None) [0 ..< 4]
       = [50, 50, 0, 0]"
  by (simp add: detect_trend_def trend_of_week_totals_def week_total_of_def week_step_def
      debit_def example_now_def timedelta_days_def timedelta_weeks_def upt_rec)

subsection \<open>Budget bands\<close>

lemma budget_entry_of_bands:
  "0 < budget \<Longrightarrow>
   be_percentage (budget_entry_of category_spending category budget) =
     spending_get category_spending category / budget * 100
   \<and> be_status (budget_entry_of category_spending category budget) =
     (let percentage = spending_get category_spending category / budget * 100
      in if percentage \<ge> 100 then ''exceeded''
         else if percentage \<ge> 90 then ''critical''
         else if percentage \<ge> 75 then ''warning''
         else ''good'')"
  by (simp add: budget_entry_of_def Let_def)

text \<open>
  Claim C6.  \<^verbatim>\<open>analyze_budget\<close> reports the percentage as spent over budget times 100,
  but its bands are 100, 90 and 75, and it has no status \<^verbatim>\<open>'moderate'\<close>.  With a
  budget of 100, a spending of 60 is reported \<^verbatim>\<open>'good'\<close> and one of 78
  \<^verbatim>\<open>'warning'\<close>, while \<^verbatim>\<open>check_budget_status\<close>, which has the bands 100, 90, 80
  and 50, reports \<^verbatim>\<open>'moderate'\<close> for both.
\<close>

theorem analyze_budget_bands_differ:
  "map (\<lambda>(category, e). (category, be_percentage e, be_status e))
     (ba_categories (analyze_budget example_now
        [debit 90 60 ''food'', debit 97 78 ''fuel''] [(''food'', 100), (''fuel'', 100)] 30))
   = [(''food'', 60, ''good''), (''fuel'', 78, ''warning'')]
   \<and> check_budget_status 60 100 = (''moderate'', Some (60, 40))
   \<and> check_budget_status 78 100 = (''moderate'', Some (78, 22))"
  by (simp add: analyze_budget_def budget_entry_of_def spending_get_def spending_step_def
      category_or_other_nonempty_def debit_def example_now_def timedelta_days_def
      check_budget_status_def Let_def)

section \<open>The balance replay invariant\<close>

lemma replay_balances_snoc:
  "replay_balances (rows @ [r]) =
     (fst (replay_balances rows) + fst (signed_delta r),
      snd (replay_balances rows) + snd (signed_delta r))"
  by (simp add: replay_balances_def split: prod.splits)

lemma stored_checkpoint_snoc:
  "stored_checkpoint (rows @ [r]) = (tx_balance_total r, tx_balance_wallet r)"
  by (simp add: stored_checkpoint_def)

lemma replay_prefixes_snoc:
  assumes "\<forall>n. replay_balances (take n rows) = stored_checkpoint (take n rows)"
    and "tx_balance_total r = fst (stored_checkpoint rows) + fst (signed_delta r)"
    and "tx_balance_wallet r = snd (stored_checkpoint rows) + snd (signed_delta r)"
  shows "replay_balances (take n (rows @ [r])) = stored_checkpoint (take n (rows @ [r]))"
proof (cases "n \<le> length rows")
  case True
  then show ?thesis using assms(1) by simp
next
  case False
  from assms(1) have "replay_balances (take (length rows) rows) =
      stored_checkpoint (take (length rows) rows)" by blast
  then have whole: "replay_balances rows = stored_checkpoint rows" by simp
  from False have "take n (rows @ [r]) = rows @ [r]" by simp
  then show ?thesis
    using assms(2,3) whole by (simp add: replay_balances_snoc stored_checkpoint_snoc)
qed

lemma replays_empty: "replays empty_tracker"
  by (simp add: replays_def empty_tracker_def replay_balances_def stored_checkpoint_def)

lemma add_transaction_connected:
  assumes "transactions_sheet s = Some rows"
  shows "fst (add_transaction transaction_type wallet_type amount description category merchant
                date_override now s)
         = s\<lparr>transactions_sheet := Some (rows @
              [\<lparr>tx_date = (case date_override of Some d \<Rightarrow> d | None \<Rightarrow> now),
                tx_type = transaction_type, tx_wallet_type = wallet_type, tx_amount = amount,
                tx_description = description,
                tx_balance_total =
                  (if wallet_type = ''total''
                   then (if transaction_type = ''add''
                         then fst (stored_checkpoint rows) + amount
                         else fst (stored_checkpoint rows) - amount)
                   else fst (stored_checkpoint rows)),
                tx_balance_wallet =
                  (if wallet_type = ''total'' then snd (stored_checkpoint rows)
                   else if wallet_type = ''wallet''
                   then (if transaction_type = ''add''
                         then snd (stored_checkpoint rows) + amount
                         else snd (stored_checkpoint rows) - amount)
                   else snd (stored_checkpoint rows)),
                tx_category = category, tx_merchant = merchant\<rparr>])\<rparr>"
  using assms
  by (simp add: add_transaction_def append_transaction_row_def get_current_balances_rows
      Let_def split: prod.splits)

lemma add_transaction_replays:
  assumes "replays s" and "transaction_type = ''add'' \<or> transaction_type = ''subtract''"
  shows "replays (fst (add_transaction transaction_type wallet_type amount description
                         category merchant date_override now s))"
proof -
  from assms(1) obtain rows where
    sh: "transactions_sheet s = Some rows"
    and inv: "\<forall>n. replay_balances (take n rows) = stored_checkpoint (take n rows)"
    unfolding replays_def by blast
  let ?r = "\<lparr>tx_date = (case date_override of Some d \<Rightarrow> d | None \<Rightarrow> now),
                tx_type = transaction_type, tx_wallet_type = wallet_type, tx_amount = amount,
                tx_description = description,
                tx_balance_total =
                  (if wallet_type = ''total''
                   then (if transaction_type = ''add''
                         then fst (stored_checkpoint rows) + amount
                         else fst (stored_checkpoint rows) - amount)
                   else fst (stored_checkpoint rows)),
                tx_balance_wallet =
                  (if wallet_type = ''total'' then snd (stored_checkpoint rows)
                   else if wallet_type = ''wallet''
                   then (if transaction_type = ''add''
                         then snd (stored_checkpoint rows) + amount
                         else snd (stored_checkpoint rows) - amount)
                   else snd (stored_checkpoint rows)),
                tx_category = category, tx_merchant = merchant\<rparr>"
  have t: "tx_balance_total ?r = fst (stored_checkpoint rows) + fst (signed_delta ?r)"
    using assms(2) by (auto simp add: signed_delta_def)
  have w: "tx_balance_wallet ?r = snd (stored_checkpoint rows) + snd (signed_delta ?r)"
    using assms(2) by (auto simp add: signed_delta_def)
  show ?thesis
    unfolding replays_def add_transaction_connected [OF sh]
    using replay_prefixes_snoc [OF inv t w] by simp
qed

lemma transfer_between_wallets_connected:
  assumes "transactions_sheet s = Some rows"
  shows "fst (transfer_between_wallets from_wallet to_wallet amount description now s) =
     (if from_wallet = ''total'' \<and> to_wallet = ''wallet'' \<and> amount \<le> fst (stored_checkpoint rows)
      then s\<lparr>transactions_sheet := Some (rows @
             [\<lparr>tx_date = now, tx_type = ''transfer'', tx_wallet_type = ''total_to_wallet'',
               tx_amount = amount, tx_description = description,
               tx_balance_total = fst (stored_checkpoint rows) - amount,
               tx_balance_wallet = snd (stored_checkpoint rows) + amount,
               tx_category = ''transfer'', tx_merchant = []\<rparr>])\<rparr>
      else if from_wallet = ''wallet'' \<and> to_wallet = ''total''
              \<and> amount \<le> snd (stored_checkpoint rows)
      then s\<lparr>transactions_sheet := Some (rows @
             [\<lparr>tx_date = now, tx_type = ''transfer'', tx_wallet_type = ''wallet_to_total'',
               tx_amount = amount, tx_description = description,
               tx_balance_total = fst (stored_checkpoint rows) + amount,
               tx_balance_wallet = snd (stored_checkpoint rows) - amount,
               tx_category = ''transfer'', tx_merchant = []\<rparr>])\<rparr>
      else s)"
  using assms
  by (auto simp add: transfer_between_wallets_def append_transaction_row_def
      get_current_balances_rows split: prod.splits)

lemma transfer_between_wallets_replays:
  assumes "replays s"
  shows "replays (fst (transfer_between_wallets from_wallet to_wallet amount description now s))"
proof -
  from assms(1) obtain rows where
    sh: "transactions_sheet s = Some rows"
    and inv: "\<forall>n. replay_balances (take n rows) = stored_checkpoint (take n rows)"
    unfolding replays_def by blast
  let ?down = "\<lparr>tx_date = now, tx_type = ''transfer'', tx_wallet_type = ''total_to_wallet'',
               tx_amount = amount, tx_description = description,
               tx_balance_total = fst (stored_checkpoint rows) - amount,
               tx_balance_wallet = snd (stored_checkpoint rows) + amount,
               tx_category = ''transfer'', tx_merchant = []\<rparr>"
  let ?up = "\<lparr>tx_date = now, tx_type = ''transfer'', tx_wallet_type = ''wallet_to_total'',
               tx_amount = amount, tx_description = description,
               tx_balance_total = fst (stored_checkpoint rows) + amount,
               tx_balance_wallet = snd (stored_checkpoint rows) - amount,
               tx_category = ''transfer'', tx_merchant = []\<rparr>"
  have down: "replays (s\<lparr>transactions_sheet := Some (rows @ [?down])\<rparr>)"
    unfolding replays_def
    using replay_prefixes_snoc [OF inv, of ?down] by (simp add: signed_delta_def)
  have up: "replays (s\<lparr>transactions_sheet := Some (rows @ [?up])\<rparr>)"
    unfolding replays_def
    using replay_prefixes_snoc [OF inv, of ?up] by (simp add: signed_delta_def)
  show ?thesis
    unfolding transfer_between_wallets_connected [OF sh]
    using down up assms by simp
qed

lemma run_ledger_replays:
  "replays s \<Longrightarrow> list_all signed_kind ops \<Longrightarrow> replays (run_ledger now ops s)"
proof (induction ops arbitrary: s)
  case Nil
  then show ?case by (simp add: run_ledger_def)
next
  case (Cons op ops)
  have "replays (apply_ledger_op now s op)"
    using Cons.prems
    by (cases op) (simp_all add: add_transaction_replays transfer_between_wallets_replays)
  then have "replays (run_ledger now ops (apply_ledger_op now s op))"
    using Cons.IH Cons.prems by simp
  then show ?case by (simp add: run_ledger_def)
qed

text \<open>
  Claim C2.  Take any sequence of \<^verbatim>\<open>add_transaction\<close> and
  \<^verbatim>\<open>transfer_between_wallets\<close> calls, starting from an empty ledger, in which every
  \<^verbatim>\<open>add_transaction\<close> has the type \<^verbatim>\<open>'add'\<close> or \<^verbatim>\<open>'subtract'\<close>, the two
  kinds that recording a transaction defines and the only ones its callers pass.  Folding the
  signed deltas of the rows from (0, 0) gives the checkpoint stored in the last row, which
  is the current balance; and the same holds of every prefix of the rows.
\<close>

theorem balance_replay:
  assumes "list_all signed_kind ops"
  shows "replay_balances (ledger_rows (run_ledger now ops empty_tracker))
           = stored_checkpoint (ledger_rows (run_ledger now ops empty_tracker))
       \<and> replay_balances (take n (ledger_rows (run_ledger now ops empty_tracker)))
           = stored_checkpoint (take n (ledger_rows (run_ledger now ops empty_tracker)))
       \<and> get_current_balances (run_ledger now ops empty_tracker)
           = replay_balances (ledger_rows (run_ledger now ops empty_tracker))"
proof -
  from run_ledger_replays [OF replays_empty assms, of now]
  obtain rows where
    sh: "transactions_sheet (run_ledger now ops empty_tracker) = Some rows"
    and inv: "\<forall>n. replay_balances (take n rows) = stored_checkpoint (take n rows)"
    unfolding replays_def by blast
  have rows: "ledger_rows (run_ledger now ops empty_tracker) = rows"
    using sh by (simp add: ledger_rows_def get_or_def)
  from inv have "replay_balances (take (length rows) rows) =
      stored_checkpoint (take (length rows) rows)" by blast
  then have whole: "replay_balances rows = stored_checkpoint rows" by simp
  have b: "get_current_balances (run_ledger now ops empty_tracker) = stored_checkpoint rows"
    using sh by (simp add: get_current_balances_def stored_checkpoint_def)
  show ?thesis unfolding rows using whole inv b by simp
qed

theorem balance_replay_witness:
  "replay_balances (ledger_rows (run_ledger ''03/11/2026''
      [RecordTransaction ''add'' ''total'' 10 ''pay'' ''income'' [] None,
       TransferBetweenWallets ''total'' ''wallet'' 4 ''Transfer'',
       RecordTransaction ''subtract'' ''wallet'' 1 ''tea'' ''food'' ''stall'' None,
       RecordTransaction ''add'' ''cash'' 7 ''gift'' ''income'' [] None] empty_tracker))
   = (6, 3)
   \<and> replay_balances (take 2 (ledger_rows (run_ledger ''03/11/2026''
      [RecordTransaction ''add'' ''total'' 10 ''pay'' ''income'' [] None,
       TransferBetweenWallets ''total'' ''wallet'' 4 ''Transfer'',
       RecordTransaction ''subtract'' ''wallet'' 1 ''tea'' ''food'' ''stall'' None,
       RecordTransaction ''add'' ''cash'' 7 ''gift'' ''income'' [] None] empty_tracker)))
   = (6, 4)"
proof -
  let ?ops = "[RecordTransaction ''add'' ''total'' 10 ''pay'' ''income'' [] None,
       TransferBetweenWallets ''total'' ''wallet'' 4 ''Transfer'',
       RecordTransaction ''subtract'' ''wallet'' 1 ''tea'' ''food'' ''stall'' None,
       RecordTransaction ''add'' ''cash'' 7 ''gift'' ''income'' [] None]"
  have k: "list_all signed_kind ?ops" by simp
  have c: "stored_checkpoint (ledger_rows (run_ledger ''03/11/2026'' ?ops empty_tracker)) = (6, 3)"
    "stored_checkpoint (take 2 (ledger_rows (run_ledger ''03/11/2026'' ?ops empty_tracker)))
       = (6, 4)"
    by (simp_all add: run_ledger_def empty_tracker_def add_transaction_def
        transfer_between_wallets_def append_transaction_row_def get_current_balances_def
        ledger_rows_def get_or_def stored_checkpoint_def)
  from balance_replay [OF k, of "''03/11/2026''" 2] c show ?thesis by simp
qed

text \<open>
  Outside the contract, with the type \<^verbatim>\<open>'transfer'\<close>, which no caller passes to
  \<^verbatim>\<open>add_transaction\<close>, the replay does not hold.  After a credit of 10 to the total stack,
  \<^verbatim>\<open>add_transaction('transfer', 'total_to_wallet', 5, 'Transfer', 'transfer')\<close> appends
  the very row a transfer of 5 from the total stack to the wallet appends, except that its
  checkpoint is still (10, 0) where the transfer stores (5, 5).  The replay of the rows
  gives (5, 5), the stored checkpoint is (10, 0).  And with the wallet \<^verbatim>\<open>'total'\<close>,
  \<^verbatim>\<open>add_transaction('transfer', 'total', 5, ...)\<close> takes the subtracting branch: the
  stored checkpoint is (5, 0), while a row of type \<^verbatim>\<open>'transfer'\<close> without a direction
  stands for no delta and the replay gives (10, 0).
\<close>

theorem replay_breaks_on_transfer_row:
  "ledger_rows (run_ledger ''03/11/2026''
      [RecordTransaction ''add'' ''total'' 10 ''pay'' ''income'' [] None,
       RecordTransaction ''transfer'' ''total_to_wallet'' 5 ''Transfer'' ''transfer'' [] None]
      empty_tracker)
   = [\<lparr>tx_date = ''03/11/2026'', tx_type = ''add'', tx_wallet_type = ''total'',
        tx_amount = 10, tx_description = ''pay'', tx_balance_total = 10,
        tx_balance_wallet = 0, tx_category = ''income'', tx_merchant = []\<rparr>,
      \<lparr>tx_date = ''03/11/2026'', tx_type = ''transfer'', tx_wallet_type = ''total_to_wallet'',
        tx_amount = 5, tx_description = ''Transfer'', tx_balance_total = 10,
        tx_balance_wallet = 0, tx_category = ''transfer'', tx_merchant = []\<rparr>]
   \<and> ledger_rows (run_ledger ''03/11/2026''
      [RecordTransaction ''add'' ''total'' 10 ''pay'' ''income'' [] None,
       TransferBetweenWallets ''total'' ''wallet'' 5 ''Transfer'']
      empty_tracker)
   = [\<lparr>tx_date = ''03/11/2026'', tx_type = ''add'', tx_wallet_type = ''total'',
        tx_amount = 10, tx_description = ''pay'', tx_balance_total = 10,
        tx_balance_wallet = 0, tx_category = ''income'', tx_merchant = []\<rparr>,
      \<lparr>tx_date = ''03/11/2026'', tx_type = ''transfer'', tx_wallet_type = ''total_to_wallet'',
        tx_amount = 5, tx_description = ''Transfer'', tx_balance_total = 5,
        tx_balance_wallet = 5, tx_category = ''transfer'', tx_merchant = []\<rparr>]
   \<and> replay_balances (ledger_rows (run_ledger ''03/11/2026''
      [RecordTransaction ''add'' ''total'' 10 ''pay'' ''income'' [] None,
       RecordTransaction ''transfer'' ''total_to_wallet'' 5 ''Transfer'' ''transfer'' [] None]
      empty_tracker)) = (5, 5)
   \<and> stored_checkpoint (ledger_rows (run_ledger ''03/11/2026''
      [RecordTransaction ''add'' ''total'' 10 ''pay'' ''income'' [] None,
       RecordTransaction ''transfer'' ''total_to_wallet'' 5 ''Transfer'' ''transfer'' [] None]
      empty_tracker)) = (10, 0)
   \<and> replay_balances (ledger_rows (run_ledger ''03/11/2026''
      [RecordTransaction ''add'' ''total'' 10 ''pay'' ''income'' [] None,
       RecordTransaction ''transfer'' ''total'' 5 ''move'' ''transfer'' [] None]
      empty_tracker)) = (10, 0)
   \<and> stored_checkpoint (ledger_rows (run_ledger ''03/11/2026''
      [RecordTransaction ''add'' ''total'' 10 ''pay'' ''income'' [] None,
       RecordTransaction ''transfer'' ''total'' 5 ''move'' ''transfer'' [] None]
      empty_tracker)) = (5, 0)"
  by (simp add: run_ledger_def empty_tracker_def add_transaction_def
      transfer_between_wallets_def append_transaction_row_def get_current_balances_def
      ledger_rows_def get_or_def stored_checkpoint_def replay_balances_def signed_delta_def)

text \<open>No reading of the type, wallet and amount columns can replay both ledgers.\<close>

lemma no_delta_replays_every_run:
  "\<not> (\<exists>delta :: string \<Rightarrow> string \<Rightarrow> real \<Rightarrow> real \<times> real.
        \<forall>ops. stored_checkpoint (ledger_rows (run_ledger now ops empty_tracker))
          = foldl (\<lambda>(total, wallet) r.
                     (total + fst (delta (tx_type r) (tx_wallet_type r) (tx_amount r)),
                      wallet + snd (delta (tx_type r) (tx_wallet_type r) (tx_amount r))))
              (0, 0) (ledger_rows (run_ledger now ops empty_tracker)))"
proof
  assume "\<exists>delta :: string \<Rightarrow> string \<Rightarrow> real \<Rightarrow> real \<times> real.
        \<forall>ops. stored_checkpoint (ledger_rows (run_ledger now ops empty_tracker))
          = foldl (\<lambda>(total, wallet) r.
                     (total + fst (delta (tx_type r) (tx_wallet_type r) (tx_amount r)),
                      wallet + snd (delta (tx_type r) (tx_wallet_type r) (tx_amount r))))
              (0, 0) (ledger_rows (run_ledger now ops empty_tracker))"
  then obtain delta :: "string \<Rightarrow> string \<Rightarrow> real \<Rightarrow> real \<times> real" where
    d: "\<And>ops. stored_checkpoint (ledger_rows (run_ledger now ops empty_tracker))
          = foldl (\<lambda>(total, wallet) r.
                     (total + fst (delta (tx_type r) (tx_wallet_type r) (tx_amount r)),
                      wallet + snd (delta (tx_type r) (tx_wallet_type r) (tx_amount r))))
              (0, 0) (ledger_rows (run_ledger now ops empty_tracker))"
    by blast
  have a: "fst (delta ''add'' ''total'' 10) + fst (delta ''transfer'' ''total_to_wallet'' 5) = 10"
    using d [of "[RecordTransaction ''add'' ''total'' 10 ''pay'' ''income'' [] None,
       RecordTransaction ''transfer'' ''total_to_wallet'' 5 ''Transfer'' ''transfer'' [] None]"]
    by (simp add: run_ledger_def empty_tracker_def add_transaction_def
      append_transaction_row_def get_current_balances_def
      ledger_rows_def get_or_def stored_checkpoint_def case_prod_beta)
  have b: "fst (delta ''add'' ''total'' 10) + fst (delta ''transfer'' ''total_to_wallet'' 5) = 5"
    using d [of "[RecordTransaction ''add'' ''total'' 10 ''pay'' ''income'' [] None,
       TransferBetweenWallets ''total'' ''wallet'' 5 ''Transfer'']"]
    by (simp add: run_ledger_def empty_tracker_def add_transaction_def
      transfer_between_wallets_def append_transaction_row_def get_current_balances_def
      ledger_rows_def get_or_def stored_checkpoint_def case_prod_beta)
  from a b show False by simp
qed

section \<open>Loan conservation\<close>

subsection \<open>The repayment loop\<close>


lemma length_allocate_rows:
  "length (snd (allocate_rows person return_to now rs pool)) = length rs"
  by (induction rs arbitrary: pool) simp_all





subsection \<open>One operation\<close>











subsection \<open>Runs\<close>

text \<open>Names are matched whatever their case.\<close>

lemma lower_ignores_case: "lower ''Bob'' = lower ''bob''"
  by code_simp












text \<open>
  Outside the contract: a loan of a negative amount starts with a negative remaining
  amount, and a repayment then closes the row while it reports that nothing was applied.
\<close>

lemma negative_loan_outside_contract:
  "lending_rows (add_lending ''bob'' (- 5) ''refund'' ''01/11/2026'' empty_tracker)
     = [\<lparr>ln_date = ''01/11/2026'', ln_person = ''bob'', ln_amount = - 5, ln_status = ''lent'',
         ln_description = ''refund'', ln_return_date = [], ln_return_to = [],
         ln_remaining = - 5\<rparr>]
   \<and> snd (return_lending ''bob'' 10 ''wallet'' ''02/11/2026''
        (add_lending ''bob'' (- 5) ''refund'' ''01/11/2026'' empty_tracker))
     = (False, NoPendingLoans ''bob'')
   \<and> lending_rows (fst (return_lending ''bob'' 10 ''wallet'' ''02/11/2026''
        (add_lending ''bob'' (- 5) ''refund'' ''01/11/2026'' empty_tracker)))
     = [\<lparr>ln_date = ''01/11/2026'', ln_person = ''bob'', ln_amount = - 5,
         ln_status = ''returned'', ln_description = ''refund'',
         ln_return_date = ''02/11/2026'', ln_return_to = ''wallet'', ln_remaining = 0\<rparr>]"
  by (simp add: return_lending_def add_lending_def empty_tracker_def
      lending_rows_def get_or_def)

end
